theory Spec2Isabelle
  imports Complex_Main "HOL-Library.Multiset"
begin

section \<open>JavaScript numbers\<close>

text \<open>
  Every numeric field of the engine is a JavaScript \<open>number\<close>.  The model keeps the three
  special values of the type apart from the finite ones, so that a division by zero is a
  value of the model (\<open>NaN\<close> or an infinity) exactly where it is one in the program.
  Finite values are exact rationals: rounding to 53 bits and the sign of zero are not
  modelled (a zero divisor is taken as \<open>+0\<close>).
\<close>

datatype jsnum = Num rat | PosInf | NegInf | NaN

fun js_neg :: "jsnum \<Rightarrow> jsnum" where
  "js_neg (Num a) = Num (- a)"
| "js_neg PosInf = NegInf"
| "js_neg NegInf = PosInf"
| "js_neg NaN = NaN"

fun js_add :: "jsnum \<Rightarrow> jsnum \<Rightarrow> jsnum" where
  "js_add NaN _ = NaN"
| "js_add _ NaN = NaN"
| "js_add (Num a) (Num b) = Num (a + b)"
| "js_add PosInf NegInf = NaN"
| "js_add NegInf PosInf = NaN"
| "js_add PosInf _ = PosInf"
| "js_add _ PosInf = PosInf"
| "js_add NegInf _ = NegInf"
| "js_add _ NegInf = NegInf"

definition js_sub :: "jsnum \<Rightarrow> jsnum \<Rightarrow> jsnum" where
  "js_sub a b = js_add a (js_neg b)"

fun js_mul :: "jsnum \<Rightarrow> jsnum \<Rightarrow> jsnum" where
  "js_mul NaN _ = NaN"
| "js_mul _ NaN = NaN"
| "js_mul (Num a) (Num b) = Num (a * b)"
| "js_mul (Num a) b = (if a = 0 then NaN else if 0 < a then b else js_neg b)"
| "js_mul a (Num b) = (if b = 0 then NaN else if 0 < b then a else js_neg a)"
| "js_mul PosInf b = b"
| "js_mul NegInf b = js_neg b"

fun js_div :: "jsnum \<Rightarrow> jsnum \<Rightarrow> jsnum" where
  "js_div NaN _ = NaN"
| "js_div _ NaN = NaN"
| "js_div (Num a) (Num b) =
     (if b \<noteq> 0 then Num (a / b)
      else if a = 0 then NaN
      else if 0 < a then PosInf else NegInf)"
| "js_div (Num a) _ = Num 0"
| "js_div a (Num b) = (if 0 \<le> b then a else js_neg a)"
| "js_div _ _ = NaN"

text \<open>The relational operators: every comparison with \<open>NaN\<close> is false.\<close>

fun js_lt :: "jsnum \<Rightarrow> jsnum \<Rightarrow> bool" where
  "js_lt NaN _ = False"
| "js_lt _ NaN = False"
| "js_lt (Num a) (Num b) = (a < b)"
| "js_lt _ NegInf = False"
| "js_lt NegInf _ = True"
| "js_lt PosInf _ = False"
| "js_lt _ PosInf = True"

fun js_le :: "jsnum \<Rightarrow> jsnum \<Rightarrow> bool" where
  "js_le NaN _ = False"
| "js_le _ NaN = False"
| "js_le (Num a) (Num b) = (a \<le> b)"
| "js_le NegInf _ = True"
| "js_le _ PosInf = True"
| "js_le _ _ = False"

definition js_gt :: "jsnum \<Rightarrow> jsnum \<Rightarrow> bool" where
  "js_gt a b = js_lt b a"

definition js_ge :: "jsnum \<Rightarrow> jsnum \<Rightarrow> bool" where
  "js_ge a b = js_le b a"

text \<open>\<open>Math.min\<close>, \<open>Math.max\<close> and \<open>Math.abs\<close>: \<open>NaN\<close> if an argument is \<open>NaN\<close>.\<close>

fun js_min :: "jsnum \<Rightarrow> jsnum \<Rightarrow> jsnum" where
  "js_min NaN _ = NaN"
| "js_min _ NaN = NaN"
| "js_min a b = (if js_le a b then a else b)"

fun js_max :: "jsnum \<Rightarrow> jsnum \<Rightarrow> jsnum" where
  "js_max NaN _ = NaN"
| "js_max _ NaN = NaN"
| "js_max a b = (if js_le a b then b else a)"

fun js_abs :: "jsnum \<Rightarrow> jsnum" where
  "js_abs (Num a) = Num \<bar>a\<bar>"
| "js_abs PosInf = PosInf"
| "js_abs NegInf = PosInf"
| "js_abs NaN = NaN"

text \<open>Truthiness of a number: \<open>0\<close> and \<open>NaN\<close> are falsy.\<close>

fun js_truthy :: "jsnum \<Rightarrow> bool" where
  "js_truthy (Num a) = (a \<noteq> 0)"
| "js_truthy NaN = False"
| "js_truthy _ = True"

text \<open>
  \<open>x || d\<close> for an optional numeric property \<open>x\<close>: \<open>undefined\<close> is falsy, and so is a
  present \<open>0\<close> or \<open>NaN\<close>.
\<close>

fun js_or :: "jsnum option \<Rightarrow> jsnum \<Rightarrow> jsnum" where
  "js_or None d = d"
| "js_or (Some x) d = (if js_truthy x then x else d)"

section \<open>Types of the scoring module\<close>

record QuestionOption =
  optId :: string
  optIsCorrect :: bool
  partialCreditPercentage :: jsnum

record Question =
  qId :: string
  points :: jsnum
  difficultyLevel :: jsnum
  options :: "QuestionOption list"

text \<open>\<open>confidenceLevel\<close> and \<open>timeSpent\<close> are optional properties: \<open>None\<close> is \<open>undefined\<close>.\<close>

record Answer =
  questionId :: string
  selectedOptionId :: string
  isCorrect :: bool
  confidenceLevel :: "jsnum option"
  timeSpent :: "jsnum option"

record ScoringResult =
  pointsEarned :: jsnum
  pointsPossible :: jsnum
  percentage :: jsnum
  feedback :: string
  appliedMultipliers :: "string list"

record UserPerformanceMetrics =
  recentAccuracy :: jsnum
  averageResponseTime :: jsnum
  consecutiveCorrect :: jsnum
  consecutiveIncorrect :: jsnum
  currentStreak :: jsnum

record ScoringContext =
  question :: Question
  answer :: Answer
  userPerformance :: "UserPerformanceMetrics option"

text \<open>
  The two conversions of a number to text that the feedback and the trace tags use,
  \<open>Number.prototype.toFixed\<close> and the conversion inside a template literal, belong to
  the language, not to the module: they are parameters of the model.
\<close>

record NumberFormat =
  toFixed :: "jsnum \<Rightarrow> nat \<Rightarrow> string"
  toString :: "jsnum \<Rightarrow> string"

section \<open>The abstract strategy: shared helpers\<close>

definition getSelectedOption :: "Question \<Rightarrow> Answer \<Rightarrow> QuestionOption option" where
  "getSelectedOption q a = find (\<lambda>opt. optId opt = selectedOptionId a) (options q)"

definition getCorrectOption :: "Question \<Rightarrow> QuestionOption option" where
  "getCorrectOption q = find (\<lambda>opt. optIsCorrect opt) (options q)"

definition formatFeedback :: "NumberFormat \<Rightarrow> bool \<Rightarrow> jsnum \<Rightarrow> string \<Rightarrow> string" where
  "formatFeedback F correct earned language =
     (if language = ''tl'' then
        (if correct then
           (if js_gt earned (Num 0)
            then ''Tama! Nakakuha ka ng '' @ toFixed F earned 1 @ '' puntos.''
            else ''Tama ang sagot!'')
         else
           (if js_lt earned (Num 0)
            then ''Mali. Nabawasan ng '' @ toFixed F (js_abs earned) 1 @ '' puntos.''
            else ''Mali ang sagot. Subukan muli.''))
      else
        (if correct then
           (if js_gt earned (Num 0)
            then ''Correct! You earned '' @ toFixed F earned 1 @ '' points.''
            else ''Correct answer!'')
         else
           (if js_lt earned (Num 0)
            then ''Incorrect. Lost '' @ toFixed F (js_abs earned) 1 @ '' points.''
            else ''Incorrect answer. Try again.'')))"

text \<open>The call sites all leave the language at its default \<open>'tl'\<close>.\<close>

abbreviation formatFeedback_tl :: "NumberFormat \<Rightarrow> bool \<Rightarrow> jsnum \<Rightarrow> string" where
  "formatFeedback_tl F correct earned \<equiv> formatFeedback F correct earned ''tl''"

section \<open>The concrete strategies\<close>

definition StandardScoring_calculateScore :: "NumberFormat \<Rightarrow> ScoringContext \<Rightarrow> ScoringResult" where
  "StandardScoring_calculateScore F ctx =
     (let q = question ctx; a = answer ctx;
          earned = (if isCorrect a then points q else Num 0)
      in \<lparr> pointsEarned = earned,
           pointsPossible = points q,
           percentage = js_mul (js_div earned (points q)) (Num 100),
           feedback = formatFeedback_tl F (isCorrect a) earned,
           appliedMultipliers = [''standard''] \<rparr>)"

definition NegativePenaltyScoring_calculateScore ::
  "NumberFormat \<Rightarrow> jsnum \<Rightarrow> ScoringContext \<Rightarrow> ScoringResult" where
  "NegativePenaltyScoring_calculateScore F penaltyPercentage ctx =
     (let q = question ctx; a = answer ctx;
          earned = (if isCorrect a then points q
                    else js_neg (js_mul (points q) (js_div penaltyPercentage (Num 100))))
      in \<lparr> pointsEarned = earned,
           pointsPossible = points q,
           percentage = (if isCorrect a then Num 100 else js_mul penaltyPercentage (Num (- 1))),
           feedback = formatFeedback_tl F (isCorrect a) earned,
           appliedMultipliers = [''negative_penalty'', toString F penaltyPercentage @ ''%''] \<rparr>)"

definition PartialCreditScoring_calculateScore :: "NumberFormat \<Rightarrow> ScoringContext \<Rightarrow> ScoringResult" where
  "PartialCreditScoring_calculateScore F ctx =
     (let q = question ctx; a = answer ctx
      in case getSelectedOption q a of
           None \<Rightarrow>
             \<lparr> pointsEarned = Num 0,
               pointsPossible = points q,
               percentage = Num 0,
               feedback = ''Walang napiling sagot / No answer selected'',
               appliedMultipliers = [] \<rparr>
         | Some selectedOption \<Rightarrow>
             (let (earned, pct) =
                    (if optIsCorrect selectedOption then (points q, Num 100)
                     else if js_gt (partialCreditPercentage selectedOption) (Num 0)
                     then (js_mul (points q) (js_div (partialCreditPercentage selectedOption) (Num 100)),
                           partialCreditPercentage selectedOption)
                     else (Num 0, Num 0));
                  fb = (if js_gt pct (Num 0) \<and> js_lt pct (Num 100)
                        then ''Bahagyang tama! Nakakuha ka ng '' @ toString F pct
                             @ ''% ng puntos. / Partially correct! You earned '' @ toString F pct
                             @ ''% of the points.''
                        else formatFeedback_tl F (isCorrect a) earned)
              in \<lparr> pointsEarned = earned,
                   pointsPossible = points q,
                   percentage = pct,
                   feedback = fb,
                   appliedMultipliers = [''partial_credit'', toString F pct @ ''%''] \<rparr>))"

definition ConfidenceBasedScoring_calculateScore ::
  "NumberFormat \<Rightarrow> jsnum \<Rightarrow> jsnum \<Rightarrow> jsnum \<Rightarrow> ScoringContext \<Rightarrow> ScoringResult" where
  "ConfidenceBasedScoring_calculateScore F highConfidenceThreshold highConfidenceMultiplier
       basePenaltyPercentage ctx =
     (let q = question ctx; a = answer ctx;
          confidence = js_or (confidenceLevel a) (Num 3);
          isHighConfidence = js_ge confidence highConfidenceThreshold;
          basePenalty = js_neg (js_mul (points q) (js_div basePenaltyPercentage (Num 100)));
          (earned, multipliers) =
             (if isCorrect a then
                (if isHighConfidence
                 then (js_mul (points q) highConfidenceMultiplier,
                       [''confidence_based'',
                        ''high_confidence_bonus_'' @ toString F highConfidenceMultiplier @ ''x''])
                 else (points q, [''confidence_based'']))
              else
                (if isHighConfidence
                 then (js_mul basePenalty highConfidenceMultiplier,
                       [''confidence_based'',
                        ''high_confidence_penalty_'' @ toString F highConfidenceMultiplier @ ''x''])
                 else (js_mul basePenalty (Num (1/2)),
                       [''confidence_based'',
                        ''low_confidence_reduced_penalty_'' @ toString F (Num (1/2)) @ ''x''])));
          pct = js_mul (js_div earned (points q)) (Num 100);
          confidenceFeedback =
             (if isHighConfidence then '' (Mataas na kumpiyansa / High confidence)''
              else '' (Mababang kumpiyansa / Low confidence)'')
      in \<lparr> pointsEarned = earned,
           pointsPossible = js_mul (points q)
              (if isHighConfidence \<and> isCorrect a then highConfidenceMultiplier else Num 1),
           percentage = js_min (Num 100) (js_max (Num (- 100)) pct),
           feedback = formatFeedback_tl F (isCorrect a) earned @ confidenceFeedback,
           appliedMultipliers = multipliers \<rparr>)"

definition TimeBasedScoring_calculateScore ::
  "NumberFormat \<Rightarrow> jsnum \<Rightarrow> jsnum \<Rightarrow> jsnum \<Rightarrow> ScoringContext \<Rightarrow> ScoringResult" where
  "TimeBasedScoring_calculateScore F fastThresholdSeconds slowThresholdSeconds maxSpeedBonus ctx =
     (let q = question ctx; a = answer ctx;
          spent = js_or (timeSpent a) slowThresholdSeconds;
          base = (if isCorrect a then points q else Num 0);
          (speedBonus, earned, multipliers) =
             (if isCorrect a \<and> js_le spent fastThresholdSeconds then
                (let bonus = js_mul (points q) maxSpeedBonus
                 in (bonus, js_add base bonus,
                     [''time_based'',
                      ''speed_bonus_'' @ toString F (js_mul maxSpeedBonus (Num 100)) @ ''%'']))
              else if isCorrect a \<and> js_lt spent slowThresholdSeconds then
                (let speedRatio =
                       js_sub (Num 1)
                         (js_div (js_sub spent fastThresholdSeconds)
                                 (js_sub slowThresholdSeconds fastThresholdSeconds));
                     bonus = js_mul (js_mul (points q) maxSpeedBonus) speedRatio
                 in (bonus, js_add base bonus,
                     [''time_based'',
                      ''speed_bonus_''
                        @ toFixed F (js_mul (js_div bonus (points q)) (Num 100)) 0 @ ''%'']))
              else (Num 0, base, [''time_based'']));
          pct = js_mul (js_div earned (points q)) (Num 100);
          timeFeedback =
             (if js_gt speedBonus (Num 0)
              then '' (Mabilis na sagot! Bonus: +'' @ toFixed F speedBonus 1
                   @ '' / Fast answer! Bonus: +'' @ toFixed F speedBonus 1 @ '')''
              else [])
      in \<lparr> pointsEarned = earned,
           pointsPossible = js_mul (points q) (js_add (Num 1) maxSpeedBonus),
           percentage = js_min (js_add (Num 100) (js_mul maxSpeedBonus (Num 100))) pct,
           feedback = formatFeedback_tl F (isCorrect a) earned @ timeFeedback,
           appliedMultipliers = multipliers \<rparr>)"

definition AdaptiveDifficultyScoring_calculateScore ::
  "NumberFormat \<Rightarrow> ScoringContext \<Rightarrow> ScoringResult" where
  "AdaptiveDifficultyScoring_calculateScore F ctx =
     (let q = question ctx; a = answer ctx;
          difficultyMultiplier =
             js_add (Num 1) (js_mul (js_sub (difficultyLevel q) (Num 1)) (Num (1/4)));
          performanceMultiplier =
             (case userPerformance ctx of
                None \<Rightarrow> Num 1
              | Some up \<Rightarrow>
                  (if js_lt (recentAccuracy up) (Num 60) then Num (6/5)
                   else if js_gt (recentAccuracy up) (Num 90) then Num (9/10)
                   else Num 1));
          adjustedPoints = js_mul (points q) difficultyMultiplier;
          earned = (if isCorrect a then js_mul adjustedPoints performanceMultiplier else Num 0);
          pct = (if isCorrect a then Num 100 else Num 0);
          difficultyFeedback =
             (if js_ge (difficultyLevel q) (Num 4) then '' (Mahirap na tanong! / Difficult question!)''
              else if js_le (difficultyLevel q) (Num 2) then '' (Madaling tanong / Easy question)''
              else [])
      in \<lparr> pointsEarned = earned,
           pointsPossible = adjustedPoints,
           percentage = pct,
           feedback = formatFeedback_tl F (isCorrect a) earned @ difficultyFeedback,
           appliedMultipliers =
             [''adaptive_difficulty'',
              ''difficulty_'' @ toFixed F difficultyMultiplier 2 @ ''x'',
              ''performance_'' @ toFixed F performanceMultiplier 2 @ ''x''] \<rparr>)"

definition ComboStreakScoring_calculateScore ::
  "NumberFormat \<Rightarrow> jsnum \<Rightarrow> jsnum \<Rightarrow> ScoringContext \<Rightarrow> ScoringResult" where
  "ComboStreakScoring_calculateScore F streakBonusPerCorrect maxStreakMultiplier ctx =
     (let q = question ctx; a = answer ctx;
          streak = js_or (map_option consecutiveCorrect (userPerformance ctx)) (Num 0);
          streakMultiplier =
             js_min maxStreakMultiplier (js_add (Num 1) (js_mul streak streakBonusPerCorrect));
          earned = (if isCorrect a then js_mul (points q) streakMultiplier else Num 0);
          multipliers =
             (if isCorrect a \<and> js_gt streak (Num 0)
              then [''combo_streak'', ''streak_'' @ toString F streak,
                    ''multiplier_'' @ toFixed F streakMultiplier 2 @ ''x'']
              else [''combo_streak'']);
          pct = (if isCorrect a then Num 100 else Num 0);
          streakFeedback =
             (if js_ge streak (Num 3) \<and> isCorrect a
              then '' (Combo x'' @ toString F (js_add streak (Num 1)) @ ''! Multiplier: ''
                   @ toFixed F streakMultiplier 2 @ ''x)''
              else if js_gt streak (Num 0) \<and> \<not> isCorrect a
              then '' (Combo broken / Naputol ang combo)''
              else [])
      in \<lparr> pointsEarned = earned,
           pointsPossible = js_mul (points q) streakMultiplier,
           percentage = pct,
           feedback = formatFeedback_tl F (isCorrect a) earned @ streakFeedback,
           appliedMultipliers = multipliers \<rparr>)"

text \<open>
  \<open>ThresholdScoring\<close> post-processes the result of its base strategy; \<open>CompositeScoring\<close>
  aggregates the results of its inner strategies.  Both are written over results, and the
  dispatch below supplies the results of the inner calls.
\<close>

definition ThresholdScoring_apply :: "NumberFormat \<Rightarrow> jsnum \<Rightarrow> ScoringResult \<Rightarrow> ScoringResult" where
  "ThresholdScoring_apply F minimumThreshold baseResult =
     (if js_lt (percentage baseResult) minimumThreshold then
        baseResult
          \<lparr> pointsEarned := Num 0,
            percentage := Num 0,
            feedback := feedback baseResult
               @ '' (Mas mababa sa minimum threshold / Below minimum threshold)'',
            appliedMultipliers := appliedMultipliers baseResult
               @ [''threshold_'' @ toString F minimumThreshold @ ''%''] \<rparr>
      else
        baseResult
          \<lparr> appliedMultipliers := appliedMultipliers baseResult @ [''threshold_passed''] \<rparr>)"

text \<open>\<open>Array.prototype.join\<close> on strings.\<close>

fun join :: "string \<Rightarrow> string list \<Rightarrow> string" where
  "join sep [] = []"
| "join sep [x] = x"
| "join sep (x # y # ys) = x @ sep @ join sep (y # ys)"

definition CompositeScoring_aggregate :: "ScoringResult list \<Rightarrow> ScoringResult" where
  "CompositeScoring_aggregate results =
     (let totalPointsEarned = foldl (\<lambda>sum r. js_add sum (pointsEarned r)) (Num 0) results;
          totalPointsPossible = foldl (\<lambda>sum r. js_add sum (pointsPossible r)) (Num 0) results;
          allMultipliers = concat (map appliedMultipliers results);
          combinedFeedback = join '' | '' (map feedback results)
      in \<lparr> pointsEarned = totalPointsEarned,
           pointsPossible = totalPointsPossible,
           percentage = js_mul (js_div totalPointsEarned totalPointsPossible) (Num 100),
           feedback = combinedFeedback,
           appliedMultipliers = ''composite'' # allMultipliers \<rparr>)"

text \<open>
  The class hierarchy: one constructor per concrete class, carrying the private fields
  that its constructor stores.
\<close>

datatype ScoringStrategy =
    StandardScoring
  | NegativePenaltyScoring jsnum
  | PartialCreditScoring
  | ConfidenceBasedScoring jsnum jsnum jsnum
  | ThresholdScoring jsnum ScoringStrategy
  | TimeBasedScoring jsnum jsnum jsnum
  | AdaptiveDifficultyScoring
  | ComboStreakScoring jsnum jsnum
  | CompositeScoring "ScoringStrategy list"

fun calculateScore :: "NumberFormat \<Rightarrow> ScoringStrategy \<Rightarrow> ScoringContext \<Rightarrow> ScoringResult" where
  "calculateScore F StandardScoring ctx = StandardScoring_calculateScore F ctx"
| "calculateScore F (NegativePenaltyScoring p) ctx = NegativePenaltyScoring_calculateScore F p ctx"
| "calculateScore F PartialCreditScoring ctx = PartialCreditScoring_calculateScore F ctx"
| "calculateScore F (ConfidenceBasedScoring t m b) ctx =
     ConfidenceBasedScoring_calculateScore F t m b ctx"
| "calculateScore F (ThresholdScoring t base) ctx =
     ThresholdScoring_apply F t (calculateScore F base ctx)"
| "calculateScore F (TimeBasedScoring fast slow bonus) ctx =
     TimeBasedScoring_calculateScore F fast slow bonus ctx"
| "calculateScore F AdaptiveDifficultyScoring ctx = AdaptiveDifficultyScoring_calculateScore F ctx"
| "calculateScore F (ComboStreakScoring b m) ctx = ComboStreakScoring_calculateScore F b m ctx"
| "calculateScore F (CompositeScoring strategies) ctx =
     CompositeScoring_aggregate (map (\<lambda>s. calculateScore F s ctx) strategies)"

text \<open>The default arguments of the constructors.\<close>

definition default_NegativePenaltyScoring :: ScoringStrategy where
  "default_NegativePenaltyScoring = NegativePenaltyScoring (Num 25)"


definition default_ThresholdScoring :: ScoringStrategy where
  "default_ThresholdScoring = ThresholdScoring (Num 40) StandardScoring"

definition default_TimeBasedScoring :: ScoringStrategy where
  "default_TimeBasedScoring = TimeBasedScoring (Num 10) (Num 60) (Num (1/2))"

definition default_ComboStreakScoring :: ScoringStrategy where
  "default_ComboStreakScoring = ComboStreakScoring (Num (1/10)) (Num 2)"

section \<open>The adaptive question selector\<close>

text \<open>
  \<open>Array.prototype.slice(0, end)\<close>: the end is converted to an integer (\<open>NaN\<close> becomes 0,
  a fraction is truncated towards zero), a negative end counts from the end of the array,
  and the result is clipped to the array.
\<close>

definition js_truncate :: "rat \<Rightarrow> int" where
  "js_truncate r = (if r < 0 then \<lceil>r\<rceil> else \<lfloor>r\<rfloor>)"

fun slice0 :: "'a list \<Rightarrow> jsnum \<Rightarrow> 'a list" where
  "slice0 xs NaN = []"
| "slice0 xs NegInf = []"
| "slice0 xs PosInf = xs"
| "slice0 xs (Num r) =
     (let len = int (length xs);
          relativeEnd = js_truncate r;
          final = (if relativeEnd < 0 then max (len + relativeEnd) 0 else min relativeEnd len)
      in take (nat final) xs)"

text \<open>The target difficulty, the first local of \<open>selectAdaptiveQuestions\<close>.\<close>

definition selectAdaptiveQuestions_targetDifficulty ::
  "UserPerformanceMetrics \<Rightarrow> jsnum \<Rightarrow> jsnum" where
  "selectAdaptiveQuestions_targetDifficulty up currentDifficulty =
     (if js_gt (recentAccuracy up) (Num 80) \<and> js_ge (consecutiveCorrect up) (Num 3)
      then js_min (Num 5) (js_add currentDifficulty (Num 1))
      else if js_lt (recentAccuracy up) (Num 50) \<and> js_ge (consecutiveIncorrect up) (Num 3)
      then js_max (Num 1) (js_sub currentDifficulty (Num 1))
      else currentDifficulty)"

definition suitableQuestions :: "Question list \<Rightarrow> jsnum \<Rightarrow> Question list" where
  "suitableQuestions availableQuestions targetDifficulty =
     filter (\<lambda>q. js_le (js_abs (js_sub (difficultyLevel q) targetDifficulty)) (Num 1))
       availableQuestions"

text \<open>
  The shuffle is \<open>sort\<close> with the comparator \<open>() => Math.random() - 0.5\<close>.  Which order
  it leaves depends on the random draws and on the engine's sorting algorithm; the order
  is the parameter \<open>shuffle\<close>, and a theorem that needs it says that \<open>shuffle\<close> permutes
  its argument.  The parameter \<open>cnt\<close> is the source's \<open>count\<close>.
\<close>

definition selectAdaptiveQuestions ::
  "(Question list \<Rightarrow> Question list) \<Rightarrow> Question list \<Rightarrow> jsnum \<Rightarrow> UserPerformanceMetrics
     \<Rightarrow> jsnum \<Rightarrow> Question list" where
  "selectAdaptiveQuestions shuffle availableQuestions cnt up currentDifficulty =
     (let targetDifficulty = selectAdaptiveQuestions_targetDifficulty up currentDifficulty;
          shuffled = shuffle (suitableQuestions availableQuestions targetDifficulty)
      in slice0 shuffled (js_min cnt (Num (of_nat (length shuffled)))))"

definition permutes_input :: "('a list \<Rightarrow> 'a list) \<Rightarrow> bool" where
  "permutes_input shuffle \<longleftrightarrow> (\<forall>xs. mset (shuffle xs) = mset xs)"

section \<open>A decimal number format\<close>

text \<open>
  An instance of \<open>NumberFormat\<close> for the concrete evaluations below.  \<open>toFixed\<close> rounds
  the exact value half up to the requested number of decimals and prints sign, integer
  part and fraction as the language does for magnitudes below \<open>10^21\<close>; \<open>toString\<close>
  prints an integer as its digits and any other finite value as its decimal expansion,
  cut after 17 fractional digits.  The theorems that quantify over the format hold for
  every other instance as well.
\<close>

definition digit_char :: "nat \<Rightarrow> char" where
  "digit_char d = ''0123456789'' ! d"

fun nat_digits :: "nat \<Rightarrow> string" where
  "nat_digits n =
     (if n < 10 then [digit_char n] else nat_digits (n div 10) @ [digit_char (n mod 10)])"

declare nat_digits.simps [simp del]

fun frac_digits :: "nat \<Rightarrow> rat \<Rightarrow> string" where
  "frac_digits 0 x = []"
| "frac_digits (Suc k) x =
     (if x = 0 then []
      else (let d = nat \<lfloor>x * 10\<rfloor> in digit_char d # frac_digits k (x * 10 - of_nat d)))"

definition fixed_digits :: "rat \<Rightarrow> nat \<Rightarrow> string" where
  "fixed_digits x f =
     (let n = nat \<lfloor>x * 10 ^ f + 1 / 2\<rfloor>;
          ds = nat_digits n;
          m = replicate (Suc f - length ds) CHR ''0'' @ ds
      in if f = 0 then m else take (length m - f) m @ ''.'' @ drop (length m - f) m)"

fun decimal_toFixed :: "jsnum \<Rightarrow> nat \<Rightarrow> string" where
  "decimal_toFixed NaN f = ''NaN''"
| "decimal_toFixed PosInf f = ''Infinity''"
| "decimal_toFixed NegInf f = ''-Infinity''"
| "decimal_toFixed (Num r) f =
     (if r < 0 then ''-'' @ fixed_digits (- r) f else fixed_digits r f)"

definition plain_digits :: "rat \<Rightarrow> string" where
  "plain_digits x =
     (let i = nat \<lfloor>x\<rfloor>; fr = x - of_nat i
      in if fr = 0 then nat_digits i else nat_digits i @ ''.'' @ frac_digits 17 fr)"

fun decimal_toString :: "jsnum \<Rightarrow> string" where
  "decimal_toString NaN = ''NaN''"
| "decimal_toString PosInf = ''Infinity''"
| "decimal_toString NegInf = ''-Infinity''"
| "decimal_toString (Num r) = (if r < 0 then ''-'' @ plain_digits (- r) else plain_digits r)"

definition decimalFormat :: NumberFormat where
  "decimalFormat = \<lparr> toFixed = decimal_toFixed, toString = decimal_toString \<rparr>"

section \<open>Calls and sample data\<close>


text \<open>
  \<open>getUserPerformanceMetrics\<close> returns the same snapshot for every user and topic.
\<close>

definition getUserPerformanceMetrics :: UserPerformanceMetrics where
  "getUserPerformanceMetrics =
     \<lparr> recentAccuracy = Num (151/2), averageResponseTime = Num 15,
       consecutiveCorrect = Num 2, consecutiveIncorrect = Num 0, currentStreak = Num 5 \<rparr>"

text \<open>
  A question worth 10 points with the correct option \<open>A\<close> and the option \<open>B\<close> carrying
  40 percent partial credit, and the answers to it.
\<close>

definition scenarioQuestion :: Question where
  "scenarioQuestion =
     \<lparr> qId = ''q1'', points = Num 10, difficultyLevel = Num 3,
       options = [\<lparr> optId = ''A'', optIsCorrect = True, partialCreditPercentage = Num 100 \<rparr>,
                  \<lparr> optId = ''B'', optIsCorrect = False, partialCreditPercentage = Num 40 \<rparr>] \<rparr>"

definition scenarioAnswer :: "string \<Rightarrow> bool \<Rightarrow> jsnum option \<Rightarrow> jsnum option \<Rightarrow> Answer" where
  "scenarioAnswer sel ok conf spent =
     \<lparr> questionId = ''q1'', selectedOptionId = sel, isCorrect = ok,
       confidenceLevel = conf, timeSpent = spent \<rparr>"

definition scenarioContext :: "Question \<Rightarrow> Answer \<Rightarrow> ScoringContext" where
  "scenarioContext q a = \<lparr> question = q, answer = a, userPerformance = None \<rparr>"

text \<open>
  Metrics snapshots with a chosen accuracy and chosen streak counters, and a pool of ten
  questions, two at each of the levels 1 to 5.
\<close>

definition metricsWith :: "jsnum \<Rightarrow> jsnum \<Rightarrow> jsnum \<Rightarrow> UserPerformanceMetrics" where
  "metricsWith accuracy correctRun incorrectRun =
     \<lparr> recentAccuracy = accuracy, averageResponseTime = Num 15,
       consecutiveCorrect = correctRun, consecutiveIncorrect = incorrectRun,
       currentStreak = Num 5 \<rparr>"

definition levelQuestion :: "string \<Rightarrow> jsnum \<Rightarrow> Question" where
  "levelQuestion name level =
     \<lparr> qId = name, points = level, difficultyLevel = level, options = [] \<rparr>"

definition examplePool :: "Question list" where
  "examplePool =
     [levelQuestion ''q0'' (Num 1), levelQuestion ''q1'' (Num 2), levelQuestion ''q2'' (Num 3),
      levelQuestion ''q3'' (Num 4), levelQuestion ''q4'' (Num 5), levelQuestion ''q5'' (Num 1),
      levelQuestion ''q6'' (Num 2), levelQuestion ''q7'' (Num 3), levelQuestion ''q8'' (Num 4),
      levelQuestion ''q9'' (Num 5)]"

lemmas scenario_defs =
  scenarioContext_def scenarioAnswer_def scenarioQuestion_def getUserPerformanceMetrics_def
  metricsWith_def levelQuestion_def examplePool_def

section \<open>Facts about the numbers\<close>

lemma js_lt_irrefl: "\<not> js_lt a a"
  by (cases a) auto

lemma js_add_zero_left: "js_add (Num 0) a = a"
  by (cases a) auto

section \<open>The time-based policy\<close>

lemma TimeBased_pointsEarned:
  "pointsEarned (TimeBasedScoring_calculateScore F fast slow bonus ctx) =
     (let q = question ctx; a = answer ctx; spent = js_or (timeSpent a) slow in
      if isCorrect a \<and> js_le spent fast
      then js_add (points q) (js_mul (points q) bonus)
      else if isCorrect a \<and> js_lt spent slow
      then js_add (points q)
             (js_mul (js_mul (points q) bonus)
                (js_sub (Num 1) (js_div (js_sub spent fast) (js_sub slow fast))))
      else if isCorrect a then points q else Num 0)"
  by (simp add: TimeBasedScoring_calculateScore_def Let_def)

lemma TimeBased_pointsPossible:
  "pointsPossible (TimeBasedScoring_calculateScore F fast slow bonus ctx) =
     js_mul (points (question ctx)) (js_add (Num 1) bonus)"
  by (simp add: TimeBasedScoring_calculateScore_def Let_def split_def)

text \<open>
  C1.  With the default parameters a correct answer with \<open>timeSpent = 0\<close> should earn
  \<open>points * 1.5\<close>.  The program reads the time as \<open>answer.timeSpent || slowThresholdSeconds\<close>,
  and \<open>0\<close> is falsy: a reported time of 0 seconds is replaced by 60.  On the 10-point
  question the correct answer in 0 seconds earns 10 points and no bonus, where
  \<open>10 * 1.5 = 15\<close>; the same answer in 1 second earns 15, and in 60 seconds 10.
\<close>

theorem TimeBased_zero_seconds_no_bonus:
  "pointsEarned (calculateScore decimalFormat default_TimeBasedScoring
      (scenarioContext scenarioQuestion (scenarioAnswer ''A'' True None (Some (Num 0))))) = Num 10
   \<and> js_mul (Num 10) (Num (3/2)) = Num 15
   \<and> pointsEarned (calculateScore decimalFormat default_TimeBasedScoring
      (scenarioContext scenarioQuestion (scenarioAnswer ''A'' True None (Some (Num 1))))) = Num 15
   \<and> pointsEarned (calculateScore decimalFormat default_TimeBasedScoring
      (scenarioContext scenarioQuestion (scenarioAnswer ''A'' True None (Some (Num 60))))) = Num 10"
  by (simp add: default_TimeBasedScoring_def TimeBased_pointsEarned scenario_defs)

text \<open>
  C10.  When the answer carries no \<open>timeSpent\<close>, the elapsed time is taken to be the slow
  threshold: a correct answer then earns exactly \<open>question.points\<close>, with no speed bonus,
  and \<open>pointsPossible\<close> is still \<open>points * (1 + maxSpeedBonus)\<close>.  This holds for every
  choice of thresholds with the slow one above the fast one, the default 10 and 60 among
  them.
\<close>

theorem TimeBased_absent_timeSpent:
  "\<not> js_le slow fast \<Longrightarrow> isCorrect (answer ctx) \<Longrightarrow> timeSpent (answer ctx) = None \<Longrightarrow>
     js_or (timeSpent (answer ctx)) slow = slow
   \<and> pointsEarned (calculateScore F (TimeBasedScoring fast slow bonus) ctx) = points (question ctx)
   \<and> pointsPossible (calculateScore F (TimeBasedScoring fast slow bonus) ctx)
       = js_mul (points (question ctx)) (js_add (Num 1) bonus)"
  by (simp add: TimeBased_pointsEarned TimeBased_pointsPossible js_lt_irrefl)

theorem TimeBased_absent_timeSpent_witness:
  "\<not> js_le (Num 60) (Num 10)
   \<and> isCorrect (scenarioAnswer ''A'' True None None)
   \<and> timeSpent (scenarioAnswer ''A'' True None None) = None
   \<and> pointsEarned (calculateScore decimalFormat default_TimeBasedScoring
        (scenarioContext scenarioQuestion (scenarioAnswer ''A'' True None None))) = Num 10
   \<and> pointsPossible (calculateScore decimalFormat default_TimeBasedScoring
        (scenarioContext scenarioQuestion (scenarioAnswer ''A'' True None None))) = Num 15"
  using TimeBased_absent_timeSpent [of "Num 60" "Num 10"
      "scenarioContext scenarioQuestion (scenarioAnswer ''A'' True None None)"
      decimalFormat "Num (1/2)"]
  by (simp add: default_TimeBasedScoring_def scenario_defs)

section \<open>The confidence-based policy\<close>













section \<open>The selector\<close>


lemma permutes_input_length: "permutes_input f \<Longrightarrow> length (f xs) = length xs"
  using mset_eq_length [of "f xs" xs] by (simp add: permutes_input_def)

lemma permutes_input_Nil: "permutes_input f \<Longrightarrow> f [] = []"
  using permutes_input_length [of f "[]"] by simp






lemma slice0_negative:
  "0 < k \<Longrightarrow> slice0 xs (js_min (Num (- of_nat k)) (Num (of_nat (length xs))))
      = take (length xs - k) xs"
proof -
  assume k: "0 < k"
  have neg: "- (of_nat k :: rat) < 0" using k by simp
  have le: "- (of_nat k :: rat) \<le> of_nat (length xs)"
    by (rule order_trans [of _ 0]) simp_all
  have tr: "js_truncate (- of_nat k) = - int k"
    using neg by (simp add: js_truncate_def ceiling_minus)
  have "nat (max (int (length xs) + - int k) 0) = length xs - k"
    by simp
  then show ?thesis using le tr k by (simp add: Let_def)
qed







lemma permutes_input_rev: "permutes_input rev"
  by (simp add: permutes_input_def)





lemma slice0_Nil: "slice0 [] e = []"
  by (cases e) (simp_all add: Let_def)

lemma js_truncate_small: "- 1 < r \<Longrightarrow> r \<le> 0 \<Longrightarrow> js_truncate r = 0"
proof -
  assume a: "- 1 < r" and b: "r \<le> 0"
  show ?thesis
  proof (cases "r < 0")
    case True
    have "\<lceil>r\<rceil> = 0"
      using a b by (simp add: ceiling_eq_iff)
    with True show ?thesis by (simp add: js_truncate_def)
  next
    case False
    with b have "r = 0" by simp
    then show ?thesis by (simp add: js_truncate_def)
  qed
qed

lemma slice0_small:
  assumes "js_lt (Num (- 1)) cnt" "js_le cnt (Num 0)"
  shows "slice0 xs (js_min cnt (Num (of_nat (length xs)))) = []"
proof -
  from assms obtain r where r: "cnt = Num r" "- 1 < r" "r \<le> 0"
    by (cases cnt) auto
  have le: "r \<le> of_nat (length xs)"
    using r(3) by (rule order_trans) simp
  show ?thesis
    using le by (simp add: r(1) js_truncate_small [OF r(2) r(3)])
qed

text \<open>
  C4.  On an empty pool \<open>selectAdaptiveQuestions\<close> returns the empty list, whatever the
  metrics, the difficulty and the count.  On any pool it returns the empty list when the
  count is 0 (more generally above \<open>-1\<close> and at most 0).  A negative whole count \<open>-k\<close>
  reaches \<open>slice\<close> as a negative end, which counts from the end of the array: the result
  is the shuffled filtered pool without its last \<open>k\<close> questions, empty only when \<open>k\<close> is
  at least the size of the filtered pool.  With count \<open>-1\<close> and six suitable questions
  five are returned.
\<close>

theorem selectAdaptiveQuestions_empty_result:
  assumes perm: "permutes_input shuffle"
  shows "selectAdaptiveQuestions shuffle [] cnt up cur = []
   \<and> (js_lt (Num (- 1)) cnt \<and> js_le cnt (Num 0) \<longrightarrow>
        selectAdaptiveQuestions shuffle pool cnt up cur = [])
   \<and> (0 < k \<longrightarrow>
        selectAdaptiveQuestions shuffle pool (Num (- of_nat k)) up cur
          = take (length (suitableQuestions pool (selectAdaptiveQuestions_targetDifficulty up cur)) - k)
              (shuffle (suitableQuestions pool (selectAdaptiveQuestions_targetDifficulty up cur))))"
proof (intro conjI impI)
  show "selectAdaptiveQuestions shuffle [] cnt up cur = []"
    by (simp add: selectAdaptiveQuestions_def suitableQuestions_def Let_def
        permutes_input_Nil [OF perm] slice0_Nil)
next
  assume "js_lt (Num (- 1)) cnt \<and> js_le cnt (Num 0)"
  then show "selectAdaptiveQuestions shuffle pool cnt up cur = []"
    by (simp only: selectAdaptiveQuestions_def Let_def slice0_small)
next
  let ?S = "suitableQuestions pool (selectAdaptiveQuestions_targetDifficulty up cur)"
  assume k: "0 < k"
  have "selectAdaptiveQuestions shuffle pool (Num (- of_nat k)) up cur
      = slice0 (shuffle ?S) (js_min (Num (- of_nat k)) (Num (of_nat (length (shuffle ?S)))))"
    by (simp only: selectAdaptiveQuestions_def Let_def)
  also have "\<dots> = take (length (shuffle ?S) - k) (shuffle ?S)"
    using k by (rule slice0_negative)
  finally show "selectAdaptiveQuestions shuffle pool (Num (- of_nat k)) up cur
      = take (length ?S - k) (shuffle ?S)"
    by (simp only: permutes_input_length [OF perm])
qed

theorem selectAdaptiveQuestions_empty_result_witness:
  "permutes_input (rev :: Question list \<Rightarrow> Question list)
   \<and> selectAdaptiveQuestions rev [] (Num 4) getUserPerformanceMetrics (Num 3) = []
   \<and> js_lt (Num (- 1)) (Num 0) \<and> js_le (Num 0) (Num 0)
   \<and> selectAdaptiveQuestions rev examplePool (Num 0) getUserPerformanceMetrics (Num 3) = []
   \<and> selectAdaptiveQuestions rev examplePool (Num (- 4)) getUserPerformanceMetrics (Num 3)
       = [levelQuestion ''q8'' (Num 4), levelQuestion ''q7'' (Num 3)]"
  using
    selectAdaptiveQuestions_empty_result [OF permutes_input_rev, of "Num 0" getUserPerformanceMetrics "Num 3" examplePool 4]
    selectAdaptiveQuestions_empty_result [OF permutes_input_rev, of "Num 4" getUserPerformanceMetrics "Num 3" examplePool 4]
  by (simp add: permutes_input_rev scenario_defs
      selectAdaptiveQuestions_targetDifficulty_def suitableQuestions_def js_gt_def js_ge_def
      js_sub_def Let_def)

theorem selectAdaptiveQuestions_negative_count_counterexample:
  "js_le (Num (- 1)) (Num 0)
   \<and> selectAdaptiveQuestions rev examplePool (Num (- 1)) getUserPerformanceMetrics (Num 3)
       = [levelQuestion ''q8'' (Num 4), levelQuestion ''q7'' (Num 3), levelQuestion ''q6'' (Num 2),
          levelQuestion ''q3'' (Num 4), levelQuestion ''q2'' (Num 3)]"
  by (simp add: scenario_defs selectAdaptiveQuestions_def
      selectAdaptiveQuestions_targetDifficulty_def suitableQuestions_def js_gt_def js_ge_def
      js_sub_def js_truncate_def Let_def ceiling_minus)








section \<open>The composite, partial-credit and standard policies\<close>

lemma total_possible_zero:
  "\<forall>r \<in> set rs. pointsPossible r = Num 0 \<Longrightarrow>
     foldl (\<lambda>sum r. js_add sum (pointsPossible r)) (Num 0) rs = Num 0"
  by (induction rs) simp_all

lemma percentage_over_zero:
  "js_mul (js_div e (Num 0)) (Num 100) =
     (case e of Num x \<Rightarrow> (if x = 0 then NaN else if 0 < x then PosInf else NegInf)
              | PosInf \<Rightarrow> PosInf | NegInf \<Rightarrow> NegInf | NaN \<Rightarrow> NaN)"
  by (cases e) auto

lemma Composite_fields:
  "pointsEarned (CompositeScoring_aggregate rs) = foldl (\<lambda>sum r. js_add sum (pointsEarned r)) (Num 0) rs"
  "pointsPossible (CompositeScoring_aggregate rs) = foldl (\<lambda>sum r. js_add sum (pointsPossible r)) (Num 0) rs"
  "percentage (CompositeScoring_aggregate rs) =
     js_mul (js_div (pointsEarned (CompositeScoring_aggregate rs))
                    (pointsPossible (CompositeScoring_aggregate rs))) (Num 100)"
  by (simp_all add: CompositeScoring_aggregate_def Let_def)

text \<open>
  C2.  \<open>CompositeScoring\<close> divides the summed earned points by the summed points possible
  with no test of the divisor.  When every inner strategy reports 0 points possible, the
  sum is 0 and the percentage is the quotient by zero of the language: \<open>NaN\<close> when the
  summed earned points are 0 (or \<open>NaN\<close>), \<open>Infinity\<close> when they are positive, \<open>-Infinity\<close>
  when they are negative.  It is never 0, and nothing is raised.  The composite of no
  strategies, and the composite of \<open>StandardScoring\<close> on a question worth 0 points, both
  report \<open>NaN\<close>.
\<close>

theorem Composite_zero_possible:
  assumes zero: "\<forall>s \<in> set strategies. pointsPossible (calculateScore F s ctx) = Num 0"
  shows "pointsPossible (calculateScore F (CompositeScoring strategies) ctx) = Num 0
   \<and> percentage (calculateScore F (CompositeScoring strategies) ctx) =
       (case pointsEarned (calculateScore F (CompositeScoring strategies) ctx) of
          Num x \<Rightarrow> (if x = 0 then NaN else if 0 < x then PosInf else NegInf)
        | PosInf \<Rightarrow> PosInf | NegInf \<Rightarrow> NegInf | NaN \<Rightarrow> NaN)
   \<and> percentage (calculateScore F (CompositeScoring strategies) ctx) \<noteq> Num 0"
proof -
  let ?rs = "map (\<lambda>s. calculateScore F s ctx) strategies"
  have "\<forall>r \<in> set ?rs. pointsPossible r = Num 0"
    using zero by simp
  then have poss: "pointsPossible (CompositeScoring_aggregate ?rs) = Num 0"
    by (simp only: Composite_fields total_possible_zero)
  have pct: "percentage (CompositeScoring_aggregate ?rs) =
      js_mul (js_div (pointsEarned (CompositeScoring_aggregate ?rs)) (Num 0)) (Num 100)"
    using Composite_fields(3) [of ?rs] by (simp only: poss)
  have ne: "percentage (CompositeScoring_aggregate ?rs) \<noteq> Num 0"
    unfolding pct percentage_over_zero
    by (cases "pointsEarned (CompositeScoring_aggregate ?rs)") simp_all
  show ?thesis
    using poss pct ne by (simp only: calculateScore.simps percentage_over_zero) simp
qed

theorem Composite_zero_possible_witness:
  "pointsPossible (calculateScore decimalFormat (TimeBasedScoring (Num 10) (Num 60) (Num (- 1)))
      (scenarioContext scenarioQuestion (scenarioAnswer ''A'' True None None))) = Num 0
   \<and> pointsEarned (calculateScore decimalFormat
        (CompositeScoring [TimeBasedScoring (Num 10) (Num 60) (Num (- 1))])
        (scenarioContext scenarioQuestion (scenarioAnswer ''A'' True None None))) = Num 10
   \<and> percentage (calculateScore decimalFormat
        (CompositeScoring [TimeBasedScoring (Num 10) (Num 60) (Num (- 1))])
        (scenarioContext scenarioQuestion (scenarioAnswer ''A'' True None None))) = PosInf"
  using Composite_zero_possible [of "[TimeBasedScoring (Num 10) (Num 60) (Num (- 1))]" decimalFormat
      "scenarioContext scenarioQuestion (scenarioAnswer ''A'' True None None)"]
  by (simp add: scenario_defs TimeBased_pointsPossible TimeBased_pointsEarned Composite_fields
      js_add_zero_left)

theorem Composite_division_unguarded_counterexample:
  "percentage (calculateScore decimalFormat (CompositeScoring [])
      (scenarioContext scenarioQuestion (scenarioAnswer ''A'' True None None))) = NaN
   \<and> pointsPossible (calculateScore decimalFormat StandardScoring
      (scenarioContext (levelQuestion ''q0'' (Num 0)) (scenarioAnswer ''A'' True None None))) = Num 0
   \<and> percentage (calculateScore decimalFormat (CompositeScoring [StandardScoring])
      (scenarioContext (levelQuestion ''q0'' (Num 0)) (scenarioAnswer ''A'' True None None))) = NaN
   \<and> NaN \<noteq> Num 0"
  by (simp add: scenario_defs Composite_fields StandardScoring_calculateScore_def Let_def)

text \<open>
  C7.  When the selected option id matches none of the question's options,
  \<open>PartialCreditScoring\<close> returns the terminal result with 0 points earned, percentage 0,
  the feedback \<open>Walang napiling sagot / No answer selected\<close> and an empty trace; the
  points possible are the question's points, not 0.
\<close>

theorem PartialCredit_no_answer:
  "getSelectedOption (question ctx) (answer ctx) = None \<Longrightarrow>
    calculateScore F PartialCreditScoring ctx =
      \<lparr> pointsEarned = Num 0, pointsPossible = points (question ctx), percentage = Num 0,
        feedback = ''Walang napiling sagot / No answer selected'', appliedMultipliers = [] \<rparr>"
  by (simp add: PartialCreditScoring_calculateScore_def)

theorem PartialCredit_no_answer_witness:
  "getSelectedOption scenarioQuestion (scenarioAnswer ''Z'' False None None) = None \<and>
    calculateScore decimalFormat PartialCreditScoring
       (scenarioContext scenarioQuestion (scenarioAnswer ''Z'' False None None)) =
      \<lparr> pointsEarned = Num 0, pointsPossible = Num 10, percentage = Num 0,
        feedback = ''Walang napiling sagot / No answer selected'', appliedMultipliers = [] \<rparr>"
  using PartialCredit_no_answer [of "scenarioContext scenarioQuestion (scenarioAnswer ''Z'' False None None)" decimalFormat]
  by (simp add: scenario_defs getSelectedOption_def)

theorem PartialCredit_no_answer_possible_counterexample:
  "getSelectedOption scenarioQuestion (scenarioAnswer ''Z'' False None None) = None
   \<and> pointsEarned (calculateScore decimalFormat PartialCreditScoring
       (scenarioContext scenarioQuestion (scenarioAnswer ''Z'' False None None))) = Num 0
   \<and> pointsPossible (calculateScore decimalFormat PartialCreditScoring
       (scenarioContext scenarioQuestion (scenarioAnswer ''Z'' False None None))) = Num 10
   \<and> Num 10 \<noteq> Num 0"
  by (simp add: scenario_defs getSelectedOption_def PartialCreditScoring_calculateScore_def)

text \<open>
  C8.  The composite of \<open>StandardScoring\<close> alone agrees with \<open>StandardScoring\<close> on points
  earned, points possible, percentage and feedback; its trace is the standard trace with
  the tag \<open>composite\<close> in front.
\<close>

theorem Composite_of_Standard:
  "(let c = calculateScore F (CompositeScoring [StandardScoring]) ctx;
        s = calculateScore F StandardScoring ctx
    in pointsEarned c = pointsEarned s \<and> pointsPossible c = pointsPossible s \<and>
       percentage c = percentage s \<and> feedback c = feedback s \<and>
       appliedMultipliers c = ''composite'' # appliedMultipliers s)"
  by (simp add: CompositeScoring_aggregate_def StandardScoring_calculateScore_def Let_def
      js_add_zero_left)

theorem Composite_of_Standard_trace_counterexample:
  "appliedMultipliers (calculateScore decimalFormat (CompositeScoring [StandardScoring])
       (scenarioContext scenarioQuestion (scenarioAnswer ''A'' True None None)))
     = [''composite'', ''standard'']
   \<and> appliedMultipliers (calculateScore decimalFormat StandardScoring
       (scenarioContext scenarioQuestion (scenarioAnswer ''A'' True None None))) = [''standard'']
   \<and> [''composite'', ''standard''] \<noteq> [''standard'']"
  by (simp add: CompositeScoring_aggregate_def StandardScoring_calculateScore_def Let_def)


end
